theory Spec2Isabelle
  imports Complex_Main "HOL-Library.Monad_Syntax"
begin

section \<open>JavaScript strings\<close>

text \<open>
  A JavaScript string is a sequence of UTF-16 code units. A code unit is modelled as a
  natural number; \<open>String.fromCharCode\<close> is the only place of the worker that builds a
  code unit from a number, and it reduces it modulo \<open>2 ^ 16\<close>. The literals of the
  source are ASCII and are written with \<open>js\<close>.
\<close>

type_synonym jsstring = "nat list"

definition js :: "string \<Rightarrow> jsstring" where
  "js s = map of_char s"

definition fromCharCode :: "nat \<Rightarrow> nat" where
  "fromCharCode n = n mod 65536"

section \<open>Constants of the worker\<close>



definition CACHE_TTL_SECONDS :: nat where
  "CACHE_TTL_SECONDS = 3600"

definition MAX_RETRIES :: nat where
  "MAX_RETRIES = 3"

definition INITIAL_RETRY_DELAY :: nat where
  "INITIAL_RETRY_DELAY = 1000"

section \<open>Retry with exponential backoff\<close>

text \<open>
  \<open>retryWithBackoff\<close> calls an effectful operation. The operation is modelled by the
  outcome of each of its calls: \<open>fn attempt\<close> is what the call made in loop round
  \<open>attempt\<close> does, \<open>Inl e\<close> when it throws \<open>e\<close> and \<open>Inr v\<close> when it returns \<open>v\<close>
  (the value \<open>undefined\<close> included). The function returns its own outcome together with
  the effects it performed, in order.

  The variable \<open>lastError\<close> starts out \<open>undefined\<close> (\<open>None\<close>); the statement after
  the loop throws whatever it holds. With a natural number of retries the loop body runs at
  least once, so a thrown \<open>None\<close> never arises from the first round on.
\<close>

datatype 'e effect =
    Invoke nat
  | Warn nat nat 'e
  | Sleep nat

function retry_loop ::
  "(nat \<Rightarrow> 'e + 'a) \<Rightarrow> nat \<Rightarrow> nat \<Rightarrow> nat \<Rightarrow> 'e option \<Rightarrow> ('e option + 'a) \<times> 'e effect list"
where
  "retry_loop fn maxRetries initialDelay attempt lastError =
     (if attempt \<le> maxRetries then
        (case fn attempt of
           Inr v \<Rightarrow> (Inr v, [Invoke attempt])
         | Inl error \<Rightarrow>
             if attempt = maxRetries then (Inl (Some error), [Invoke attempt])
             else
               (let delay = initialDelay * 2 ^ attempt;
                    rest = retry_loop fn maxRetries initialDelay (Suc attempt) (Some error)
                in (fst rest,
                    Invoke attempt # Warn (attempt + 1) delay error # Sleep delay # snd rest)))
      else (Inl lastError, []))"
  by pat_completeness auto
termination
  by (relation "measure (\<lambda>(fn, maxRetries, initialDelay, attempt, lastError).
        Suc maxRetries - attempt)") auto

declare retry_loop.simps [simp del]

definition retryWithBackoff ::
  "(nat \<Rightarrow> 'e + 'a) \<Rightarrow> nat \<Rightarrow> nat \<Rightarrow> ('e option + 'a) \<times> 'e effect list"
where
  "retryWithBackoff fn maxRetries initialDelay = retry_loop fn maxRetries initialDelay 0 None"

text \<open>The calls of the operation and the sleeps of a trace, in order.\<close>

fun invocations :: "'e effect list \<Rightarrow> nat list" where
  "invocations [] = []"
| "invocations (Invoke i # t) = i # invocations t"
| "invocations (_ # t) = invocations t"

fun sleeps :: "'e effect list \<Rightarrow> nat list" where
  "sleeps [] = []"
| "sleeps (Sleep d # t) = d # sleeps t"
| "sleeps (_ # t) = sleeps t"

text \<open>One failed round that is followed by another: the call, the warning, the sleep.\<close>

definition failed_round :: "(nat \<Rightarrow> 'e + 'a) \<Rightarrow> nat \<Rightarrow> nat \<Rightarrow> 'e effect list" where
  "failed_round fn initialDelay i =
     [Invoke i, Warn (i + 1) (initialDelay * 2 ^ i) (projl (fn i)), Sleep (initialDelay * 2 ^ i)]"

section \<open>Identifier resolver\<close>

subsection \<open>Character classes\<close>

text \<open>
  The class \<open>\s\<close> of a JavaScript regular expression, which is also the set of code units
  that \<open>String.prototype.trim\<close> removes: white space and line terminators.
\<close>

definition is_ws :: "nat \<Rightarrow> bool" where
  "is_ws c \<longleftrightarrow>
     c = 9 \<or> c = 10 \<or> c = 11 \<or> c = 12 \<or> c = 13 \<or> c = 32 \<or> c = 160 \<or> c = 5760 \<or>
     (8192 \<le> c \<and> c \<le> 8202) \<or> c = 8232 \<or> c = 8233 \<or> c = 8239 \<or> c = 8287 \<or>
     c = 12288 \<or> c = 65279"





subsection \<open>Backtracking matcher\<close>








subsection \<open>The patterns and \<open>extractVideoId\<close>\<close>







section \<open>Errors\<close>

text \<open>
  What the worker throws and catches: a \<open>TranscriptError\<close> with its message and HTTP
  status (404 unless the constructor is given another), or any other error with its
  message. An exception raised by a library function of the run time is an \<open>Error\<close>
  whose message is the name of the exception; the wording of the run time is not modelled.
\<close>

datatype js_error =
    TranscriptError jsstring nat
  | Error jsstring

definition InvalidCharacterError :: js_error where
  "InvalidCharacterError = Error (js ''InvalidCharacterError'')"

definition URIError :: js_error where
  "URIError = Error (js ''URIError'')"

section \<open>Binary parameter encoder\<close>

subsection \<open>\<open>btoa\<close> and \<open>encodeURIComponent\<close>\<close>

text \<open>
  \<open>btoa\<close> reads its argument as a string of bytes and throws on a code unit above 255.
  Otherwise it is the Base64 encoding with the standard alphabet and \<open>=\<close> padding.
\<close>

definition b64 :: "nat \<Rightarrow> nat" where
  "b64 i = (if i < 26 then 65 + i else if i < 52 then 71 + i else if i < 62 then i - 4
            else if i = 62 then 43 else 47)"

fun base64 :: "nat list \<Rightarrow> jsstring" where
  "base64 [] = []"
| "base64 [a] = [b64 (a div 4), b64 (a mod 4 * 16), 61, 61]"
| "base64 [a, b] = [b64 (a div 4), b64 (a mod 4 * 16 + b div 16), b64 (b mod 16 * 4), 61]"
| "base64 (a # b # c # rest) =
     b64 (a div 4) # b64 (a mod 4 * 16 + b div 16) # b64 (b mod 16 * 4 + c div 64) #
     b64 (c mod 64) # base64 rest"

definition btoa :: "jsstring \<Rightarrow> js_error + jsstring" where
  "btoa binary =
     (if list_all (\<lambda>c. c \<le> 255) binary then Inr (base64 binary) else Inl InvalidCharacterError)"

text \<open>
  \<open>encodeURIComponent\<close> keeps the unreserved characters \<open>A-Z a-z 0-9 - _ . ! ~ * ' ( )\<close>
  and writes every other code point as the \<open>%XX\<close> escapes of its UTF-8 bytes. It throws
  on a surrogate that is not part of a pair.
\<close>

definition uri_unreserved :: "nat \<Rightarrow> bool" where
  "uri_unreserved c \<longleftrightarrow>
     (65 \<le> c \<and> c \<le> 90) \<or> (97 \<le> c \<and> c \<le> 122) \<or> (48 \<le> c \<and> c \<le> 57) \<or>
     c = 45 \<or> c = 95 \<or> c = 46 \<or> c = 33 \<or> c = 126 \<or> c = 42 \<or> c = 39 \<or> c = 40 \<or> c = 41"

definition hex_digit :: "nat \<Rightarrow> nat" where
  "hex_digit d = (if d < 10 then 48 + d else 55 + d)"

definition percent :: "nat \<Rightarrow> jsstring" where
  "percent byte = [37, hex_digit (byte div 16), hex_digit (byte mod 16)]"

definition utf8 :: "nat \<Rightarrow> nat list" where
  "utf8 cp =
     (if cp < 128 then [cp]
      else if cp < 2048 then [192 + cp div 64, 128 + cp mod 64]
      else if cp < 65536 then [224 + cp div 4096, 128 + cp div 64 mod 64, 128 + cp mod 64]
      else [240 + cp div 262144, 128 + cp div 4096 mod 64, 128 + cp div 64 mod 64,
            128 + cp mod 64])"

definition escape :: "nat \<Rightarrow> jsstring" where
  "escape cp = concat (map percent (utf8 cp))"

fun encode_units :: "jsstring \<Rightarrow> jsstring option" where
  "encode_units [] = Some []"
| "encode_units (c # rest) =
     (if uri_unreserved c then map_option ((#) c) (encode_units rest)
      else if 56320 \<le> c \<and> c \<le> 57343 then None
      else if 55296 \<le> c \<and> c \<le> 56319 then
        (case rest of
           [] \<Rightarrow> None
         | d # rest' \<Rightarrow>
             if 56320 \<le> d \<and> d \<le> 57343
             then map_option ((@) (escape ((c - 55296) * 1024 + (d - 56320) + 65536)))
                    (encode_units rest')
             else None)
      else map_option ((@) (escape c)) (encode_units rest))"

definition encodeURIComponent :: "jsstring \<Rightarrow> js_error + jsstring" where
  "encodeURIComponent s = (case encode_units s of None \<Rightarrow> Inl URIError | Some t \<Rightarrow> Inr t)"

subsection \<open>\<open>buildTranscriptToken\<close>\<close>

definition b64urlEncodeBinary :: "jsstring \<Rightarrow> js_error + jsstring" where
  "b64urlEncodeBinary binary =
     (case btoa binary of Inl e \<Rightarrow> Inl e | Inr b \<Rightarrow> encodeURIComponent b)"

definition inner_blob :: "jsstring \<Rightarrow> jsstring \<Rightarrow> jsstring" where
  "inner_blob source lang =
     [fromCharCode 0x0A] @ [fromCharCode (length source)] @ source @
     [fromCharCode 0x12] @ [fromCharCode (length lang)] @ lang @
     [fromCharCode 0x1A] @ [fromCharCode 0x00]"

definition panel :: jsstring where
  "panel = js ''engagement-panel-searchable-transcript-search-panel''"

definition outer_blob :: "jsstring \<Rightarrow> jsstring \<Rightarrow> bool \<Rightarrow> jsstring" where
  "outer_blob videoId innerB64 lastFlag =
     [fromCharCode 0x0A] @ [fromCharCode (length videoId)] @ videoId @
     [fromCharCode 0x12] @ [fromCharCode (length innerB64)] @ innerB64 @
     [fromCharCode 0x18] @ [fromCharCode 0x01] @
     [fromCharCode 0x2A] @ [fromCharCode (length panel)] @ panel @
     [fromCharCode 0x30] @ [fromCharCode 0x01] @
     [fromCharCode 0x38] @ [fromCharCode 0x01] @
     [fromCharCode 0x40] @ [fromCharCode (if lastFlag then 1 else 0)]"

definition buildTranscriptToken ::
  "jsstring \<Rightarrow> jsstring \<Rightarrow> jsstring \<Rightarrow> bool \<Rightarrow> js_error + jsstring"
where
  "buildTranscriptToken videoId source lang lastFlag =
     (case btoa (inner_blob source lang) of
        Inl e \<Rightarrow> Inl e
      | Inr innerB64 \<Rightarrow> b64urlEncodeBinary (outer_blob videoId innerB64 lastFlag))"

subsection \<open>The wire format in the words of the specification\<close>





text \<open>
  The effect of \<open>encodeURIComponent\<close> on the Base64 alphabet: \<open>+\<close>, \<open>/\<close> and \<open>=\<close> are
  escaped, letters and digits are kept.
\<close>

definition percent_encode_b64 :: "jsstring \<Rightarrow> jsstring" where
  "percent_encode_b64 s =
     concat (map (\<lambda>c. if c = 43 then js ''%2B'' else if c = 47 then js ''%2F''
                       else if c = 61 then js ''%3D'' else [c]) s)"

text \<open>The characters of a Base64 text: the alphabet and the padding \<open>=\<close>.\<close>

definition is_b64char :: "nat \<Rightarrow> bool" where
  "is_b64char c \<longleftrightarrow> (65 \<le> c \<and> c \<le> 90) \<or> (97 \<le> c \<and> c \<le> 122) \<or> (48 \<le> c \<and> c \<le> 57) \<or>
     c = 43 \<or> c = 47 \<or> c = 61"

section \<open>String operations of the transcript parser\<close>

text \<open>\<open>String.prototype.trim\<close>: white space is removed from both ends.\<close>

definition trim :: "jsstring \<Rightarrow> jsstring" where
  "trim s = rev (dropWhile is_ws (rev (dropWhile is_ws s)))"

text \<open>\<open>replace(/\s+/g, ' ')\<close>: every maximal run of white space becomes one space.\<close>

function collapse_ws :: "jsstring \<Rightarrow> jsstring" where
  "collapse_ws [] = []"
| "collapse_ws (c # cs) =
     (if is_ws c then 32 # collapse_ws (dropWhile is_ws cs) else c # collapse_ws cs)"
  by pat_completeness auto
termination
  by (relation "measure length") (auto simp: length_dropWhile_le less_Suc_eq_le)

text \<open>\<open>Array.prototype.join\<close> with a separator.\<close>

fun join :: "jsstring \<Rightarrow> jsstring list \<Rightarrow> jsstring" where
  "join sep [] = []"
| "join sep [x] = x"
| "join sep (x # y # ys) = x @ sep @ join sep (y # ys)"

text \<open>
  \<open>parseInt(s, 10)\<close> on a string: leading white space is skipped, one sign is read, and
  the longest run of decimal digits that follows is the value; without a digit the result
  is \<open>NaN\<close> (\<open>None\<close>). Numbers are exact here: the rounding of large values to double
  precision is not modelled.
\<close>

definition is_digit :: "nat \<Rightarrow> bool" where
  "is_digit c \<longleftrightarrow> 48 \<le> c \<and> c \<le> 57"

definition digits_value :: "jsstring \<Rightarrow> int" where
  "digits_value z = foldl (\<lambda>acc d. acc * 10 + (int d - 48)) 0 z"

definition parse_digits :: "jsstring \<Rightarrow> int option" where
  "parse_digits s =
     (let z = takeWhile is_digit s in if z = [] then None else Some (digits_value z))"

definition parseInt :: "jsstring \<Rightarrow> int option" where
  "parseInt string =
     (case dropWhile is_ws string of
        [] \<Rightarrow> None
      | c # cs \<Rightarrow>
          if c = 45 then map_option uminus (parse_digits cs)
          else if c = 43 then parse_digits cs
          else parse_digits (c # cs))"

section \<open>Transcript fetcher and parser\<close>

subsection \<open>The response of the transcript endpoint\<close>

text \<open>
  The response is modelled with the shape that the parser navigates. Every property that
  the source reads with \<open>?.\<close> or tests for presence is optional; arrays are lists; the
  millisecond fields and the text of a run are strings when present. \<open>None\<close> stands for
  a property that is missing (or, for \<open>run_text\<close>, not a string). The two properties
  named \<open>content\<close> and the two named \<open>text\<close> get distinct names.
\<close>

record run =
  run_text :: "jsstring option"

record snippet =
  runs :: "run list option"

record renderer =
  startMs :: "jsstring option"
  endMs :: "jsstring option"
  snippet :: "snippet option"

record segment =
  transcriptSegmentRenderer :: "renderer option"

record transcriptSegmentListRenderer =
  initialSegments :: "segment list option"

record body =
  transcriptSegmentListRenderer :: "transcriptSegmentListRenderer option"

record transcriptSearchPanelRenderer =
  body :: "body option"

record renderer_content =
  transcriptSearchPanelRenderer :: "transcriptSearchPanelRenderer option"

record transcriptRenderer =
  renderer_content :: "renderer_content option"

record content =
  transcriptRenderer :: "transcriptRenderer option"

record updateEngagementPanelAction =
  targetId :: "jsstring option"
  content :: "content option"

record action =
  updateEngagementPanelAction :: "updateEngagementPanelAction option"

record responseData =
  actions :: "action list option"

subsection \<open>Results\<close>

record langOption =
  languageCode :: jsstring
  kind :: jsstring
  language :: jsstring

record part =
  start :: rat
  duration :: rat
  text' :: jsstring

text \<open>The result spreads the language option and adds the transcript and its parts.\<close>

record TranscriptResult = langOption +
  transcript :: jsstring
  parts :: "part list"

subsection \<open>Console output\<close>

datatype console =
    WarnStructureNotFound responseData
  | WarnInvalidTiming renderer
  | LogCacheHit jsstring
  | LogCacheMiss jsstring
  | ErrorKvGet jsstring js_error
  | ErrorNoKv
  | ErrorExtraction "js_error option"

subsection \<open>\<open>getTranscript\<close>\<close>

text \<open>\<open>xs?.[0]\<close> on an array.\<close>

definition first :: "'a list \<Rightarrow> 'a option" where
  "first xs = (case xs of [] \<Rightarrow> None | x # _ \<Rightarrow> Some x)"

definition initialSegments_of :: "responseData \<Rightarrow> segment list option" where
  "initialSegments_of responseData =
     actions responseData \<bind> first \<bind> updateEngagementPanelAction \<bind> content \<bind>
     transcriptRenderer \<bind> renderer_content \<bind> transcriptSearchPanelRenderer \<bind> body \<bind>
     transcriptSegmentListRenderer \<bind> initialSegments"

definition no_transcript_found :: "jsstring \<Rightarrow> js_error" where
  "no_transcript_found lang =
     TranscriptError
       (js ''No transcript found for this video in the specified language ('' @ [39] @
        lang @ [39] @ js '').'') 404"

definition could_not_parse :: js_error where
  "could_not_parse =
     TranscriptError
       (js ''Could not parse transcript data. The API structure might have changed.'') 500"

definition no_text_segments :: "jsstring \<Rightarrow> js_error" where
  "no_text_segments lang =
     TranscriptError
       (js ''Transcript was found but contained no text segments for language '' @ [39] @
        lang @ [39] @ js ''.'') 404"

text \<open>The text of a segment: the texts of its runs that have one, concatenated.\<close>

definition runs_text :: "run list \<Rightarrow> jsstring" where
  "runs_text rs =
     foldl (\<lambda>text run. case run_text run of Some t \<Rightarrow> text @ t | None \<Rightarrow> text) [] rs"

text \<open>
  One round of the loop over the segments: the part that is pushed, if any, and the
  warning that is printed, if any.
\<close>

definition parse_segment :: "segment \<Rightarrow> part option \<times> console list" where
  "parse_segment segment =
     (case transcriptSegmentRenderer segment of
        None \<Rightarrow> (None, [])
      | Some renderer \<Rightarrow>
          (case (startMs renderer, endMs renderer, snippet renderer \<bind> runs) of
             (Some startMs_field, Some endMs_field, Some rs) \<Rightarrow>
               (let text = collapse_ws (trim (runs_text rs)) in
                if text = [] then (None, [])
                else
                  (case (parseInt startMs_field, parseInt endMs_field) of
                     (Some start_ms, Some end_ms) \<Rightarrow>
                       if end_ms < start_ms then (None, [WarnInvalidTiming renderer])
                       else (Some \<lparr>start = of_int start_ms / 1000,
                                   duration = of_int (end_ms - start_ms) / 1000,
                                   text' = text\<rparr>, [])
                   | _ \<Rightarrow> (None, [WarnInvalidTiming renderer])))
           | _ \<Rightarrow> (None, [])))"

fun parse_segments :: "segment list \<Rightarrow> part list \<times> console list" where
  "parse_segments [] = ([], [])"
| "parse_segments (segment # rest) =
     (case parse_segment segment of
        (None, out) \<Rightarrow> (fst (parse_segments rest), out @ snd (parse_segments rest))
      | (Some p, out) \<Rightarrow> (p # fst (parse_segments rest), out @ snd (parse_segments rest)))"

definition transcript_panel_target :: "responseData \<Rightarrow> bool" where
  "transcript_panel_target responseData =
     (case actions responseData of
        None \<Rightarrow> False
      | Some acts \<Rightarrow>
          (first acts \<bind> updateEngagementPanelAction \<bind> targetId) =
            Some (js ''engagement-panel-searchable-transcript''))"

definition parse_response ::
  "langOption \<Rightarrow> responseData \<Rightarrow> (js_error + TranscriptResult) \<times> console list"
where
  "parse_response langOption responseData =
     (case initialSegments_of responseData of
        None \<Rightarrow>
          if transcript_panel_target responseData
          then (Inl (no_transcript_found (language langOption)), [])
          else (Inl could_not_parse, [WarnStructureNotFound responseData])
      | Some segments \<Rightarrow>
          (let (ps, out) = parse_segments segments in
           if length ps = 0 then (Inl (no_text_segments (language langOption)), out)
           else
             (let fullTranscript = trim (join (js '' '') (map text' ps))
              in (Inr (langOption.extend langOption
                         \<lparr>transcript = fullTranscript, parts = ps\<rparr>), out))))"

text \<open>
  The request to the transcript endpoint and what comes back: the call of \<open>fetch\<close> may
  throw, reading the body as JSON may throw, or there is a parsed response. The endpoint
  is a parameter of the model. The client version is built from a date that the source
  picks at random among the last thirty days; the date is a parameter as well.
\<close>

record api_request =
  clientVersion :: jsstring
  params :: jsstring

datatype fetch_outcome =
    FetchThrows js_error
  | JsonThrows js_error
  | Json responseData

text \<open>The request: the encoded parameter, which may throw, and the client version.\<close>

definition transcript_request :: "jsstring \<Rightarrow> jsstring \<Rightarrow> langOption \<Rightarrow> js_error + api_request" where
  "transcript_request date videoId langOption =
     (case (if kind langOption = js ''asr''
            then buildTranscriptToken videoId (kind langOption) (languageCode langOption) True
            else buildTranscriptToken videoId [] (languageCode langOption) True) of
        Inl e \<Rightarrow> Inl e
      | Inr reqBodyToEncode \<Rightarrow>
          Inr \<lparr>clientVersion = js ''2.'' @ date @ js ''.00.00'', params = reqBodyToEncode\<rparr>)"

definition getTranscript ::
  "(api_request \<Rightarrow> fetch_outcome) \<Rightarrow> jsstring \<Rightarrow> jsstring \<Rightarrow> langOption \<Rightarrow>
   (js_error + TranscriptResult) \<times> console list"
where
  "getTranscript endpoint date videoId langOption =
     (case transcript_request date videoId langOption of
        Inl e \<Rightarrow> (Inl e, [])
      | Inr request \<Rightarrow>
          (case endpoint request of
             FetchThrows e \<Rightarrow> (Inl e, [])
           | JsonThrows e \<Rightarrow> (Inl e, [])
           | Json responseData \<Rightarrow> parse_response langOption responseData))"

text \<open>
  The HTTP status with which a route answers an error that it catches: the status of a
  \<open>TranscriptError\<close>, and 500 for every other error.
\<close>

fun error_status :: "js_error \<Rightarrow> nat" where
  "error_status (TranscriptError message status) = status"
| "error_status (Error message) = 500"

subsection \<open>Example data\<close>

text \<open>
  A response with the whole path to a segment list (or to none) and a given target
  identifier, and a segment with both millisecond fields and one run for each given text.
\<close>

definition response_of_segments :: "jsstring option \<Rightarrow> segment list option \<Rightarrow> responseData" where
  "response_of_segments target segments =
     \<lparr>actions = Some [\<lparr>updateEngagementPanelAction = Some
        \<lparr>targetId = target,
         content = Some \<lparr>transcriptRenderer = Some \<lparr>renderer_content = Some
           \<lparr>transcriptSearchPanelRenderer = Some \<lparr>body = Some
             \<lparr>transcriptSegmentListRenderer = Some
               \<lparr>initialSegments = segments\<rparr>\<rparr>\<rparr>\<rparr>\<rparr>\<rparr>\<rparr>\<rparr>]\<rparr>"



section \<open>Caption track discovery\<close>



text \<open>The two comparators of the sort, with \<open>first = "English"\<close>.\<close>

text \<open>\<open>String.prototype.includes\<close>: the second string occurs in the first.\<close>

fun includes' :: "jsstring \<Rightarrow> jsstring \<Rightarrow> bool" where
  "includes' [] sub = (sub = [])"
| "includes' (c # cs) sub = (take (length sub) (c # cs) = sub \<or> includes' cs sub)"

definition first_language :: jsstring where
  "first_language = js ''English''"

definition compare_includes :: "jsstring \<Rightarrow> jsstring \<Rightarrow> int" where
  "compare_includes x y =
     (if includes' x first_language then - 1 else if includes' y first_language then 1
      else 0)"

definition compare_equals :: "jsstring \<Rightarrow> jsstring \<Rightarrow> int" where
  "compare_equals x y = (if x = first_language then - 1 else if y = first_language then 1 else 0)"

text \<open>
  \<open>Array.prototype.sort\<close> belongs to the engine and is the parameter \<open>array_sort\<close>.
  The names are sorted twice; each sorted name is then looked up among the tracks
  (\<open>find\<close> returns the first track of that name).
\<close>

definition sortLanguageNames ::
  "((jsstring \<Rightarrow> jsstring \<Rightarrow> int) \<Rightarrow> jsstring list \<Rightarrow> jsstring list) \<Rightarrow> jsstring list \<Rightarrow> jsstring list"
where
  "sortLanguageNames array_sort languageOptions =
     array_sort compare_equals (array_sort compare_includes languageOptions)"





section \<open>Routes\<close>

subsection \<open>Requests, the store and responses\<close>






record put_request =
  put_key :: jsstring
  put_value :: "jsstring option"
  expirationTtl :: nat

datatype kv_put_outcome =
    PutThrows js_error
  | PutSettles "js_error option"

datatype cache_status = Hit | Miss

text \<open>
  A response: the JSON body of a success with its \<open>videoId\<close>, its \<open>language\<close> (the
  transcript route only), its data and its cache status; or the body of a failure with its
  error text and status; or no response of the route at all, when its \<open>catch\<close> block
  throws because the caught value is \<open>undefined\<close>.
\<close>

datatype 'd response =
    Success jsstring "jsstring option" 'd cache_status
  | Failure jsstring nat
  | Uncaught

record 'd outcome =
  response :: "'d response"
  console :: "console list"
  waitUntil :: "put_request option"

text \<open>The \<open>catch\<close> block at the end of both routes.\<close>

definition caught :: "js_error option \<Rightarrow> console list \<Rightarrow> 'd outcome" where
  "caught error out =
     \<lparr>response =
        (case error of
           None \<Rightarrow> Uncaught
         | Some (TranscriptError message status) \<Rightarrow> Failure message status
         | Some (Error message) \<Rightarrow>
             Failure (if message = [] then js ''An unexpected error occurred.'' else message) 500),
      console = out @ [ErrorExtraction error],
      waitUntil = None\<rparr>"




text \<open>Step 3 of both routes: the write to the cache and the response of a miss.\<close>

definition store_and_respond ::
  "(put_request \<Rightarrow> kv_put_outcome) \<Rightarrow> jsstring \<Rightarrow> jsstring option \<Rightarrow> jsstring \<Rightarrow>
   jsstring option \<Rightarrow> 'd \<Rightarrow> console list \<Rightarrow> 'd outcome"
where
  "store_and_respond kv_put videoId lang cacheKey serialized d out =
     (let request = \<lparr>put_key = cacheKey, put_value = serialized,
                      expirationTtl = CACHE_TTL_SECONDS\<rparr>
      in case kv_put request of
           PutThrows e \<Rightarrow> caught (Some e) out
         | PutSettles _ \<Rightarrow>
             \<lparr>response = Success videoId lang d Miss, console = out, waitUntil = Some request\<rparr>)"

subsection \<open>\<open>POST /transcript\<close>\<close>



subsection \<open>\<open>POST /languages\<close>\<close>



subsection \<open>The store and the endpoint in the examples\<close>

text \<open>
  An endpoint that answers every request with the same response; a store whose reads all
  fail, a store that is empty, and a store that accepts every write. After a write has
  completed, a read of its key yields the written text as the JSON reader \<open>parse\<close> of
  the store reads it.
\<close>

definition endpoint_returning :: "responseData \<Rightarrow> api_request \<Rightarrow> fetch_outcome" where
  "endpoint_returning rd request = Json rd"





section \<open>Normalized text\<close>




section \<open>The sort of the engine\<close>

text \<open>
  \<open>Array.prototype.sort\<close> is not code of the worker. Both comparators of the caption
  discovery answer \<open>-1\<close> for a pair of two names that contain "English" in either order,
  so they are not consistent comparators and the language standard leaves the order to the
  engine. The worker runs on V8, whose sort is a port of the list sort of CPython. For an
  array of fewer than 64 elements it is the procedure below: the length of the run at the
  start of the array is counted, a strictly descending run is reversed, and every further
  element is placed by a binary search in the part before it. A longer array is cut into
  runs made in this way, which are then merged; the merge, like the steps below, compares
  an element only with elements that stood before it, and it is not modelled.
\<close>

text \<open>How many elements after the first two continue the run.\<close>

fun extend_run :: "('a \<Rightarrow> 'a \<Rightarrow> int) \<Rightarrow> bool \<Rightarrow> 'a \<Rightarrow> 'a list \<Rightarrow> nat" where
  "extend_run cmp isDescending previousElement [] = 0"
| "extend_run cmp isDescending previousElement (currentElement # rest) =
     (let order = cmp currentElement previousElement
      in if isDescending then
           (if order \<ge> 0 then 0 else Suc (extend_run cmp isDescending currentElement rest))
         else
           (if order < 0 then 0 else Suc (extend_run cmp isDescending currentElement rest)))"

text \<open>\<open>CountAndMakeRun\<close>: the run at the start, made ascending, and the elements after it.\<close>

definition count_and_make_run :: "('a \<Rightarrow> 'a \<Rightarrow> int) \<Rightarrow> 'a list \<Rightarrow> 'a list \<times> 'a list" where
  "count_and_make_run cmp xs =
     (case xs of
        [] \<Rightarrow> ([], [])
      | [x] \<Rightarrow> ([x], [])
      | elementHigh # elementLow # rest \<Rightarrow>
          (let order = cmp elementLow elementHigh;
               isDescending = order < 0;
               runLength = 2 + extend_run cmp isDescending elementLow rest
           in (if isDescending then rev (take runLength xs) else take runLength xs,
               drop runLength xs)))"

text \<open>The binary search of \<open>BinaryInsertionSort\<close> for the place of the pivot.\<close>

function binary_search :: "('a \<Rightarrow> 'a \<Rightarrow> int) \<Rightarrow> 'a \<Rightarrow> 'a list \<Rightarrow> nat \<Rightarrow> nat \<Rightarrow> nat" where
  "binary_search cmp pivot xs left right =
     (if left < right then
        (let mid = left + (right - left) div 2;
             order = cmp pivot (xs ! mid)
         in if order < 0 then binary_search cmp pivot xs left mid
            else binary_search cmp pivot xs (mid + 1) right)
      else left)"
  by pat_completeness auto
termination
  by (relation "measure (\<lambda>(cmp, pivot, xs, left, right). right - left)") auto

declare binary_search.simps [simp del]

fun binary_insertion_sort :: "('a \<Rightarrow> 'a \<Rightarrow> int) \<Rightarrow> 'a list \<Rightarrow> 'a list \<Rightarrow> 'a list" where
  "binary_insertion_sort cmp placed [] = placed"
| "binary_insertion_sort cmp placed (pivot # rest) =
     (let left = binary_search cmp pivot placed 0 (length placed)
      in binary_insertion_sort cmp (take left placed @ pivot # drop left placed) rest)"

definition v8_sort :: "('a \<Rightarrow> 'a \<Rightarrow> int) \<Rightarrow> 'a list \<Rightarrow> 'a list" where
  "v8_sort cmp xs =
     (if length xs < 2 then xs
      else (let (run, rest) = count_and_make_run cmp xs
            in binary_insertion_sort cmp run rest))"

text \<open>
  A comparator of the shape of the two in the caption discovery: an element with the
  property sorts before everything, and two elements without it compare equal.
\<close>

definition by_property :: "('a \<Rightarrow> bool) \<Rightarrow> 'a \<Rightarrow> 'a \<Rightarrow> int" where
  "by_property P x y = (if P x then - 1 else if P y then 1 else 0)"

section \<open>Properties of the retry executor\<close>

lemma retry_loop_success:
  "attempt \<le> k \<Longrightarrow> k \<le> maxRetries \<Longrightarrow> \<forall>i. attempt \<le> i \<and> i < k \<longrightarrow> isl (fn i) \<Longrightarrow>
   fn k = Inr v \<Longrightarrow>
   retry_loop fn maxRetries initialDelay attempt lastError =
     (Inr v, concat (map (failed_round fn initialDelay) [attempt..<k]) @ [Invoke k])"
proof (induction "k - attempt" arbitrary: attempt lastError)
  case 0
  then have "attempt = k" by simp
  with 0 show ?case by (subst retry_loop.simps) simp
next
  case (Suc n)
  then have lt: "attempt < k" by simp
  with Suc.prems have "isl (fn attempt)" by simp
  then obtain e where e: "fn attempt = Inl e" by (cases "fn attempt") auto
  have step: "retry_loop fn maxRetries initialDelay (Suc attempt) (Some e) =
     (Inr v, concat (map (failed_round fn initialDelay) [Suc attempt..<k]) @ [Invoke k])"
    using Suc.hyps(1) [of "Suc attempt" "Some e"] Suc.hyps(2) Suc.prems lt by auto
  have range: "[attempt..<k] = attempt # [Suc attempt..<k]"
    using lt by (simp add: upt_conv_Cons)
  show ?case
    using lt Suc.prems(2) e step
    by (subst retry_loop.simps) (simp add: range failed_round_def Let_def)
qed

lemma retry_loop_exhausted:
  "attempt \<le> maxRetries \<Longrightarrow> \<forall>i. attempt \<le> i \<and> i \<le> maxRetries \<longrightarrow> isl (fn i) \<Longrightarrow>
   retry_loop fn maxRetries initialDelay attempt lastError =
     (Inl (Some (projl (fn maxRetries))),
      concat (map (failed_round fn initialDelay) [attempt..<maxRetries]) @ [Invoke maxRetries])"
proof (induction "maxRetries - attempt" arbitrary: attempt lastError)
  case 0
  then have eq: "attempt = maxRetries" by simp
  from 0 eq have "isl (fn maxRetries)" by simp
  then obtain e where "fn maxRetries = Inl e" by (cases "fn maxRetries") auto
  with eq show ?case by (subst retry_loop.simps) simp
next
  case (Suc n)
  then have lt: "attempt < maxRetries" by simp
  with Suc.prems have "isl (fn attempt)" by simp
  then obtain e where e: "fn attempt = Inl e" by (cases "fn attempt") auto
  have step: "retry_loop fn maxRetries initialDelay (Suc attempt) (Some e) =
     (Inl (Some (projl (fn maxRetries))),
      concat (map (failed_round fn initialDelay) [Suc attempt..<maxRetries]) @ [Invoke maxRetries])"
    using Suc.hyps(1) [of "Suc attempt" "Some e"] Suc.hyps(2) Suc.prems lt by auto
  have range: "[attempt..<maxRetries] = attempt # [Suc attempt..<maxRetries]"
    using lt by (simp add: upt_conv_Cons)
  show ?case
    using lt e step
    by (subst retry_loop.simps) (simp add: range failed_round_def Let_def)
qed

lemma invocations_append [simp]: "invocations (t @ u) = invocations t @ invocations u"
  by (induction t rule: invocations.induct) auto

lemma sleeps_append [simp]: "sleeps (t @ u) = sleeps t @ sleeps u"
  by (induction t rule: sleeps.induct) auto

lemma invocations_rounds:
  "invocations (concat (map (failed_round fn d) [a..<b])) = [a..<b]"
  by (induction b) (auto simp: failed_round_def)

lemma sleeps_rounds:
  "sleeps (concat (map (failed_round fn d) [a..<b])) = map (\<lambda>i. d * 2 ^ i) [a..<b]"
  by (induction b) (auto simp: failed_round_def)

lemma retry_loop_invocations_bound:
  "length (invocations (snd (retry_loop fn maxRetries initialDelay attempt lastError)))
     \<le> Suc maxRetries - attempt"
proof (induction fn maxRetries initialDelay attempt lastError rule: retry_loop.induct)
  case (1 fn maxRetries initialDelay attempt lastError)
  show ?case
  proof (cases "attempt \<le> maxRetries")
    case False
    then show ?thesis by (subst retry_loop.simps) simp
  next
    case le: True
    show ?thesis
    proof (cases "fn attempt")
      case (Inr v)
      with le show ?thesis by (subst retry_loop.simps) simp
    next
      case (Inl e)
      show ?thesis
      proof (cases "attempt = maxRetries")
        case True
        with Inl show ?thesis
          by (subst retry_loop.simps) simp
      next
        case False
        with le Inl "1.IH" [of e "initialDelay * 2 ^ attempt"]
        show ?thesis
          by (subst retry_loop.simps) (simp add: Let_def)
      qed
    qed
  qed
qed

text \<open>
  Claim C4. With the default parameters (\<open>MAX_RETRIES = 3\<close>, \<open>INITIAL_RETRY_DELAY = 1000\<close>)
  the retry executor calls the operation at most four times. When the call of round \<open>k\<close>
  is the first that returns (whatever it returns, the \<open>undefined\<close> of "no captions"
  included), the executor returns that value, has called the operation in rounds
  \<open>0, ..., k\<close> only, has slept \<open>1000 * 2 ^ i\<close> after each failed round \<open>i < k\<close>, and
  does nothing after the call that returned. When all four calls throw, it throws the
  failure of the last call, after the sleeps 1000, 2000 and 4000 and with no sleep after the
  last call.
\<close>

theorem retryWithBackoff_default_behaviour:
  fixes fn :: "nat \<Rightarrow> 'e + 'a"
  defines "run \<equiv> retryWithBackoff fn MAX_RETRIES INITIAL_RETRY_DELAY"
  shows "length (invocations (snd run)) \<le> 4
    \<and> (\<forall>k v. k \<le> 3 \<and> (\<forall>i<k. isl (fn i)) \<and> fn k = Inr v \<longrightarrow>
          fst run = Inr v
        \<and> snd run = concat (map (failed_round fn 1000) [0..<k]) @ [Invoke k]
        \<and> invocations (snd run) = [0..<Suc k]
        \<and> sleeps (snd run) = map (\<lambda>i. 1000 * 2 ^ i) [0..<k])
    \<and> ((\<forall>i\<le>3. isl (fn i)) \<longrightarrow>
          fst run = Inl (Some (projl (fn 3)))
        \<and> snd run = concat (map (failed_round fn 1000) [0..<3]) @ [Invoke 3]
        \<and> invocations (snd run) = [0, 1, 2, 3]
        \<and> sleeps (snd run) = [1000, 2000, 4000])"
proof (intro conjI allI impI)
  show "length (invocations (snd run)) \<le> 4"
    using retry_loop_invocations_bound [of fn 3 1000 0 None]
    by (simp add: run_def retryWithBackoff_def MAX_RETRIES_def INITIAL_RETRY_DELAY_def)
next
  fix k v
  assume a: "k \<le> 3 \<and> (\<forall>i<k. isl (fn i)) \<and> fn k = Inr v"
  then have r: "run = (Inr v, concat (map (failed_round fn 1000) [0..<k]) @ [Invoke k])"
    using retry_loop_success [of 0 k 3 fn v 1000 None]
    by (simp add: run_def retryWithBackoff_def MAX_RETRIES_def INITIAL_RETRY_DELAY_def)
  show "fst run = Inr v" by (simp add: r)
  show "snd run = concat (map (failed_round fn 1000) [0..<k]) @ [Invoke k]" by (simp add: r)
  show "invocations (snd run) = [0..<Suc k]" by (simp add: r invocations_rounds)
  show "sleeps (snd run) = map (\<lambda>i. 1000 * 2 ^ i) [0..<k]" by (simp add: r sleeps_rounds)
next
  assume a: "\<forall>i\<le>3. isl (fn i)"
  then have r: "run = (Inl (Some (projl (fn 3))),
      concat (map (failed_round fn 1000) [0..<3]) @ [Invoke 3])"
    using retry_loop_exhausted [of 0 3 fn 1000 None]
    by (simp add: run_def retryWithBackoff_def MAX_RETRIES_def INITIAL_RETRY_DELAY_def)
  have upt3: "[0..<3] = [0, 1, 2::nat]" by (simp add: upt_rec)
  show "fst run = Inl (Some (projl (fn 3)))" by (simp add: r)
  show "snd run = concat (map (failed_round fn 1000) [0..<3]) @ [Invoke 3]" by (simp add: r)
  show "invocations (snd run) = [0, 1, 2, 3]"
    by (simp add: r invocations_rounds) (simp add: upt3)
  show "sleeps (snd run) = [1000, 2000, 4000]"
    by (simp add: r sleeps_rounds) (simp add: upt3)
qed

text \<open>
  An operation that throws twice and then returns 7: the executor returns 7 after the
  calls of rounds 0, 1 and 2 and the sleeps 1000 and 2000.
\<close>

theorem retryWithBackoff_default_behaviour_witness:
  "fst (retryWithBackoff (\<lambda>i. if i < 2 then Inl ''boom'' else Inr (7::nat))
          MAX_RETRIES INITIAL_RETRY_DELAY) = Inr 7
   \<and> invocations (snd (retryWithBackoff (\<lambda>i. if i < 2 then Inl ''boom'' else Inr (7::nat))
          MAX_RETRIES INITIAL_RETRY_DELAY)) = [0, 1, 2]
   \<and> sleeps (snd (retryWithBackoff (\<lambda>i. if i < 2 then Inl ''boom'' else Inr (7::nat))
          MAX_RETRIES INITIAL_RETRY_DELAY)) = [1000, 2000]"
proof -
  let ?fn = "\<lambda>i::nat. if i < 2 then Inl ''boom'' else (Inr (7::nat) :: string + nat)"
  have pre: "(2::nat) \<le> 3 \<and> (\<forall>i<2. isl (?fn i)) \<and> ?fn 2 = Inr 7" by simp
  have upt2: "[0..<2] = [0, 1::nat]" "[0..<3] = [0, 1, 2::nat]" "[0..<Suc 2] = [0, 1, 2::nat]"
    by (simp_all add: upt_rec)
  from retryWithBackoff_default_behaviour [of ?fn] pre
  have "fst (retryWithBackoff ?fn MAX_RETRIES INITIAL_RETRY_DELAY) = Inr 7
      \<and> invocations (snd (retryWithBackoff ?fn MAX_RETRIES INITIAL_RETRY_DELAY)) = [0..<Suc 2]
      \<and> sleeps (snd (retryWithBackoff ?fn MAX_RETRIES INITIAL_RETRY_DELAY))
          = map (\<lambda>i. 1000 * 2 ^ i) [0..<2]"
    by blast
  then show ?thesis by (simp add: upt2)
qed

section \<open>Properties of the identifier resolver\<close>
















section \<open>Properties of the binary parameter encoder\<close>

lemma base64_length: "length (base64 xs) = 4 * ((length xs + 2) div 3)"
proof (induction xs rule: base64.induct)
  case (4 a b c rest)
  have "4 + 4 * ((length rest + 2) div 3) = 4 * ((length rest + 5) div 3)" by arith
  with 4 show ?case by (simp add: add.commute)
qed simp_all

lemma b64_char: "i < 64 \<Longrightarrow> is_b64char (b64 i)"
  by (simp add: b64_def is_b64char_def) arith

lemma sextet_bounds:
  fixes x y z :: nat
  shows "x \<le> 255 \<Longrightarrow> x div 4 < 64" and "x mod 4 * 16 < 64"
    and "y \<le> 255 \<Longrightarrow> x mod 4 * 16 + y div 16 < 64" and "y mod 16 * 4 < 64"
    and "z \<le> 255 \<Longrightarrow> y mod 16 * 4 + z div 64 < 64" and "z mod 64 < 64"
  by arith+

lemma base64_chars: "list_all (\<lambda>c. c \<le> 255) xs \<Longrightarrow> list_all is_b64char (base64 xs)"
proof (induction xs rule: base64.induct)
  case 1
  then show ?case by simp
next
  case (2 a)
  then show ?case by (simp add: b64_char sextet_bounds) (simp add: is_b64char_def)
next
  case (3 a b)
  then show ?case by (simp add: b64_char sextet_bounds) (simp add: is_b64char_def)
next
  case (4 a b c rest)
  then show ?case by (simp add: b64_char sextet_bounds)
qed

lemma base64_bytes: "list_all (\<lambda>c. c \<le> 255) xs \<Longrightarrow> list_all (\<lambda>c. c \<le> 255) (base64 xs)"
proof -
  assume "list_all (\<lambda>c. c \<le> 255) xs"
  then have "list_all is_b64char (base64 xs)" by (rule base64_chars)
  then show ?thesis by (rule list.pred_mono_strong) (auto simp: is_b64char_def)
qed

lemma escape_ascii: "escape 43 = js ''%2B''" "escape 47 = js ''%2F''" "escape 61 = js ''%3D''"
  by (simp_all add: escape_def utf8_def percent_def hex_digit_def js_def)

lemma encode_units_b64: "list_all is_b64char s \<Longrightarrow> encode_units s = Some (percent_encode_b64 s)"
proof (induction s)
  case Nil
  then show ?case by (simp add: percent_encode_b64_def)
next
  case (Cons c s)
  then have ih: "encode_units s = Some (percent_encode_b64 s)" and c: "is_b64char c" by simp_all
  consider "c = 43" | "c = 47" | "c = 61" | "uri_unreserved c" "c \<noteq> 43" "c \<noteq> 47" "c \<noteq> 61"
    using c by (auto simp: is_b64char_def uri_unreserved_def)
  then show ?case
  proof cases
    case 1
    then show ?thesis by (simp add: ih uri_unreserved_def escape_ascii percent_encode_b64_def)
  next
    case 2
    then show ?thesis by (simp add: ih uri_unreserved_def escape_ascii percent_encode_b64_def)
  next
    case 3
    then show ?thesis by (simp add: ih uri_unreserved_def escape_ascii percent_encode_b64_def)
  next
    case 4
    then show ?thesis by (simp add: ih percent_encode_b64_def)
  qed
qed


lemma panel_length: "length panel = 51"
  by (simp add: panel_def js_def)


lemma panel_bytes: "list_all (\<lambda>c. c \<le> 255) panel"
  by (simp add: panel_def js_def)




lemma buildTranscriptToken_returns:
  assumes bytes: "list_all (\<lambda>c. c \<le> 255) videoId" "list_all (\<lambda>c. c \<le> 255) source"
      "list_all (\<lambda>c. c \<le> 255) lang"
    and len: "length videoId \<le> 255" "length source + length lang \<le> 183"
  shows "buildTranscriptToken videoId source lang lastFlag =
     Inr (percent_encode_b64 (base64 (outer_blob videoId (base64 (inner_blob source lang)) lastFlag)))"
    and "length (base64 (inner_blob source lang)) \<le> 255"
proof -
  let ?inner = "inner_blob source lang"
  let ?outer = "outer_blob videoId (base64 ?inner) lastFlag"
  have inner_bytes: "list_all (\<lambda>c. c \<le> 255) ?inner"
    using bytes len by (simp add: inner_blob_def fromCharCode_def)
  have "length ?inner = length source + length lang + 6" by (simp add: inner_blob_def)
  then have "length (base64 ?inner) = 4 * ((length source + length lang + 8) div 3)"
    by (simp add: base64_length)
  with len show b64len: "length (base64 ?inner) \<le> 255" by arith
  have outer_bytes: "list_all (\<lambda>c. c \<le> 255) ?outer"
    using bytes len b64len base64_bytes [OF inner_bytes] panel_bytes
    by (simp add: outer_blob_def fromCharCode_def panel_length)
  have "encode_units (base64 ?outer) = Some (percent_encode_b64 (base64 ?outer))"
    using outer_bytes by (intro encode_units_b64 base64_chars)
  then show "buildTranscriptToken videoId source lang lastFlag =
     Inr (percent_encode_b64 (base64 ?outer))"
    using inner_bytes outer_bytes
    by (simp add: buildTranscriptToken_def btoa_def b64urlEncodeBinary_def encodeURIComponent_def)
qed

lemma buildTranscriptToken_too_long:
  "buildTranscriptToken (js ''dQw4w9WgXcQ'') (replicate 256 97) (js ''en'') True
     = Inl InvalidCharacterError"
  by (simp add: buildTranscriptToken_def btoa_def inner_blob_def fromCharCode_def)




section \<open>Properties of the transcript parser\<close>

subsection \<open>Normalization of the text\<close>











subsection \<open>The loop over the segments\<close>





lemma getTranscript_parsed:
  "transcript_request date videoId lo = Inr req \<Longrightarrow> endpoint req = Json rd \<Longrightarrow>
   getTranscript endpoint date videoId lo = parse_response lo rd"
  by (simp add: getTranscript_def)






lemma runs_without_text: "\<forall>r\<in>set rs. run_text r = None \<Longrightarrow> runs_text rs = []"
proof -
  have "\<forall>r\<in>set rs. run_text r = None \<Longrightarrow>
    foldl (\<lambda>text run. case run_text run of Some t \<Rightarrow> text @ t | None \<Rightarrow> text) acc rs = acc" for acc
    by (induction rs arbitrary: acc) simp_all
  then show "\<forall>r\<in>set rs. run_text r = None \<Longrightarrow> runs_text rs = []"
    by (simp add: runs_text_def)
qed


lemma caught_status:
  "response (caught (Some e) out) =
     Failure (case e of TranscriptError m s \<Rightarrow> m
              | Error m \<Rightarrow> if m = [] then js ''An unexpected error occurred.'' else m)
       (error_status e)"
  by (cases e) (simp_all add: caught_def)

lemma request_ok:
  "transcript_request (js ''20250101'') (js ''dQw4w9WgXcQ'')
     \<lparr>languageCode = js ''en'', kind = js ''asr'', language = js ''en''\<rparr> =
   Inr \<lparr>clientVersion = js ''2.20250101.00.00'',
        params = percent_encode_b64 (base64
          (outer_blob (js ''dQw4w9WgXcQ'') (base64 (inner_blob (js ''asr'') (js ''en''))) True))\<rparr>"
proof -
  have pre: "list_all (\<lambda>c. c \<le> 255) (js ''dQw4w9WgXcQ'')" "list_all (\<lambda>c. c \<le> 255) (js ''asr'')"
    "list_all (\<lambda>c. c \<le> 255) (js ''en'')" "length (js ''dQw4w9WgXcQ'') \<le> 255"
    "length (js ''asr'') + length (js ''en'') \<le> 183"
    by (simp_all add: js_def)
  show ?thesis
    using buildTranscriptToken_returns(1) [OF pre, of True]
    by (simp add: transcript_request_def) (simp add: js_def)
qed
subsection \<open>Evaluation of the examples\<close>


lemma example_request:
  "transcript_request (js ''20250101'') (js ''dQw4w9WgXcQ'')
     \<lparr>languageCode = js ''en'', kind = js ''asr'', language = js ''en''\<rparr> =
   Inr \<lparr>clientVersion = js ''2.20250101.00.00'',
        params = percent_encode_b64 (base64
          (outer_blob (js ''dQw4w9WgXcQ'') (base64 (inner_blob (js ''asr'') (js ''en''))) True))\<rparr>"
  by (rule request_ok)




subsection \<open>Emitted segments\<close>




subsection \<open>Skipped segments and the empty transcript\<close>




subsection \<open>A response without segment list\<close>

text \<open>
  Claim C8. When the response has no segment list at the end of the path, the fetcher
  fails with "No transcript found" (status 404) exactly when the target identifier of the
  first action is \<open>engagement-panel-searchable-transcript\<close>; otherwise it prints the
  response and fails with "Could not parse transcript data" (status 500).
\<close>

theorem missing_segment_list_errors:
  assumes "transcript_request date videoId lo = Inr req" and "endpoint req = Json rd"
    and "initialSegments_of rd = None"
  shows "(if transcript_panel_target rd
          then getTranscript endpoint date videoId lo = (Inl (no_transcript_found (language lo)), [])
          else getTranscript endpoint date videoId lo =
                 (Inl could_not_parse, [WarnStructureNotFound rd]))
     \<and> error_status (no_transcript_found (language lo)) = 404
     \<and> error_status could_not_parse = 500
     \<and> no_transcript_found (language lo) \<noteq> could_not_parse"
  using assms
  by (simp add: getTranscript_parsed parse_response_def no_transcript_found_def
      could_not_parse_def)

theorem missing_segment_list_errors_witness:
  "transcript_panel_target (response_of_segments (Some (js ''engagement-panel-searchable-transcript'')) None)
   \<and> getTranscript
        (endpoint_returning
           (response_of_segments (Some (js ''engagement-panel-searchable-transcript'')) None))
        (js ''20250101'') (js ''dQw4w9WgXcQ'')
        \<lparr>languageCode = js ''en'', kind = js ''asr'', language = js ''en''\<rparr>
      = (Inl (no_transcript_found (js ''en'')), [])
   \<and> \<not> transcript_panel_target \<lparr>actions = None\<rparr>
   \<and> getTranscript (endpoint_returning \<lparr>actions = None\<rparr>)
        (js ''20250101'') (js ''dQw4w9WgXcQ'')
        \<lparr>languageCode = js ''en'', kind = js ''asr'', language = js ''en''\<rparr>
      = (Inl could_not_parse, [WarnStructureNotFound \<lparr>actions = None\<rparr>])"
proof -
  let ?rd = "response_of_segments (Some (js ''engagement-panel-searchable-transcript'')) None"
  let ?lo = "\<lparr>languageCode = js ''en'', kind = js ''asr'', language = js ''en''\<rparr>"
  have t1: "transcript_panel_target ?rd"
    by (simp add: transcript_panel_target_def response_of_segments_def first_def)
  have p1: "initialSegments_of ?rd = None"
    by (simp add: initialSegments_of_def response_of_segments_def first_def)
  have t2: "\<not> transcript_panel_target \<lparr>actions = None\<rparr>"
    by (simp add: transcript_panel_target_def)
  have p2: "initialSegments_of \<lparr>actions = None\<rparr> = None"
    by (simp add: initialSegments_of_def)
  have e1: "endpoint_returning ?rd
      \<lparr>clientVersion = js ''2.20250101.00.00'',
        params = percent_encode_b64 (base64
          (outer_blob (js ''dQw4w9WgXcQ'') (base64 (inner_blob (js ''asr'') (js ''en''))) True))\<rparr>
      = Json ?rd"
    by (simp add: endpoint_returning_def)
  have e2: "endpoint_returning \<lparr>actions = None\<rparr>
      \<lparr>clientVersion = js ''2.20250101.00.00'',
        params = percent_encode_b64 (base64
          (outer_blob (js ''dQw4w9WgXcQ'') (base64 (inner_blob (js ''asr'') (js ''en''))) True))\<rparr>
      = Json \<lparr>actions = None\<rparr>"
    by (simp add: endpoint_returning_def)
  from missing_segment_list_errors
    [where endpoint = "endpoint_returning ?rd" and rd = ?rd, OF example_request e1 p1] t1
  have r1: "getTranscript (endpoint_returning ?rd) (js ''20250101'') (js ''dQw4w9WgXcQ'') ?lo
      = (Inl (no_transcript_found (js ''en'')), [])"
    by simp
  from missing_segment_list_errors
    [where endpoint = "endpoint_returning \<lparr>actions = None\<rparr>" and rd = "\<lparr>actions = None\<rparr>",
      OF example_request e2 p2] t2
  have r2: "getTranscript (endpoint_returning \<lparr>actions = None\<rparr>) (js ''20250101'')
      (js ''dQw4w9WgXcQ'') ?lo = (Inl could_not_parse, [WarnStructureNotFound \<lparr>actions = None\<rparr>])"
    by simp
  from t1 r1 t2 r2 show ?thesis by simp
qed

section \<open>Properties of the routes\<close>


lemma caught_out:
  "response (caught e out) = response (caught e [])"
  "waitUntil (caught e out) = waitUntil (caught e [])"
  "console (caught e out) = out @ console (caught e [])"
  by (simp_all add: caught_def)

lemma store_and_respond_out:
  "response (store_and_respond kv_put videoId lang cacheKey ser d out) =
     response (store_and_respond kv_put videoId lang cacheKey ser d [])"
  "waitUntil (store_and_respond kv_put videoId lang cacheKey ser d out) =
     waitUntil (store_and_respond kv_put videoId lang cacheKey ser d [])"
  "console (store_and_respond kv_put videoId lang cacheKey ser d out) =
     out @ console (store_and_respond kv_put videoId lang cacheKey ser d [])"
  by (simp_all add: store_and_respond_def Let_def caught_def split: kv_put_outcome.splits)






subsection \<open>A failed read of the cache\<close>

subsection \<open>The example request\<close>





subsection \<open>The language option of the transcript route\<close>




subsection \<open>The transcript of a result and the cache\<close>


section \<open>Properties of the caption sort\<close>

lemma binary_search_front:
  "P pivot \<Longrightarrow> binary_search (by_property P) pivot xs left right = left"
proof (induction "by_property P" pivot xs left right rule: binary_search.induct)
  case (1 pivot xs left right)
  show ?case
  proof (cases "left < right")
    case False
    then show ?thesis by (subst binary_search.simps) simp
  next
    case True
    have "by_property P pivot (xs ! (left + (right - left) div 2)) < 0"
      using "1.prems" by (simp add: by_property_def)
    with True "1.hyps"(1) "1.prems" show ?thesis
      by (subst binary_search.simps) (simp add: Let_def)
  qed
qed

lemma binary_search_back:
  "\<not> P pivot \<Longrightarrow> left \<le> right \<Longrightarrow> binary_search (by_property P) pivot xs left right = right"
proof (induction "by_property P" pivot xs left right rule: binary_search.induct)
  case (1 pivot xs left right)
  show ?case
  proof (cases "left < right")
    case False
    with "1.prems" show ?thesis by (subst binary_search.simps) simp
  next
    case True
    have o: "\<not> by_property P pivot (xs ! (left + (right - left) div 2)) < 0"
      using "1.prems" by (simp add: by_property_def)
    have le: "left + (right - left) div 2 + 1 \<le> right" using True by arith
    from "1.hyps"(2) [OF True refl refl o "1.prems"(1) le] True o show ?thesis
      by (subst binary_search.simps) (simp add: Let_def)
  qed
qed

lemma binary_insertion_sort_by_property:
  "binary_insertion_sort (by_property P) placed rest =
     rev (filter P rest) @ placed @ filter (\<lambda>x. \<not> P x) rest"
proof (induction rest arbitrary: placed)
  case Nil
  show ?case by simp
next
  case (Cons pivot rest)
  show ?case
  proof (cases "P pivot")
    case True
    then show ?thesis by (simp add: binary_search_front Cons.IH)
  next
    case False
    then show ?thesis by (simp add: binary_search_back Cons.IH)
  qed
qed

lemma extend_run_descending:
  "extend_run (by_property P) True previous rest = length (takeWhile P rest)"
  by (induction rest arbitrary: previous) (simp_all add: by_property_def)

lemma extend_run_ascending:
  "extend_run (by_property P) False previous rest = length (takeWhile (\<lambda>x. \<not> P x) rest)"
  by (induction rest arbitrary: previous) (simp_all add: by_property_def)

lemma filter_takeWhile_dropWhile:
  "filter Q xs = filter Q (takeWhile R xs) @ filter Q (dropWhile R xs)"
  by (metis filter_append takeWhile_dropWhile_id)

lemma filter_takeWhile_same: "filter R (takeWhile R xs) = takeWhile R xs"
  by (induction xs) simp_all

lemma filter_takeWhile_none: "filter (\<lambda>x. \<not> R x) (takeWhile R xs) = []"
  by (induction xs) simp_all

lemma v8_sort_by_property:
  "v8_sort (by_property P) xs = rev (filter P xs) @ filter (\<lambda>x. \<not> P x) xs"
proof (cases xs)
  case Nil
  then show ?thesis by (simp add: v8_sort_def)
next
  case (Cons a0 ys)
  show ?thesis
  proof (cases ys)
    case Nil
    with Cons show ?thesis by (simp add: v8_sort_def)
  next
    case c2: (Cons a1 rest)
    let ?tw = "takeWhile P rest" and ?dw = "dropWhile P rest"
    let ?tn = "takeWhile (\<lambda>x. \<not> P x) rest" and ?dn = "dropWhile (\<lambda>x. \<not> P x) rest"
    show ?thesis
    proof (cases "P a1")
      case True
      have run: "count_and_make_run (by_property P) (a0 # a1 # rest) = (rev ?tw @ [a1, a0], ?dw)"
        using True by (simp add: count_and_make_run_def by_property_def
            extend_run_descending dropWhile_eq_drop [symmetric] takeWhile_eq_take [symmetric])
      have f1: "filter P rest = ?tw @ filter P ?dw"
        using filter_takeWhile_dropWhile [of P rest P] by (simp add: filter_takeWhile_same)
      have f2: "filter (\<lambda>x. \<not> P x) rest = filter (\<lambda>x. \<not> P x) ?dw"
        using filter_takeWhile_dropWhile [of "\<lambda>x. \<not> P x" rest P]
        by (simp add: filter_takeWhile_none)
      show ?thesis
        using True
        by (simp add: v8_sort_def Cons c2 run binary_insertion_sort_by_property f1 f2
            del: dropWhile_eq_Nil_conv)
    next
      case False
      have run: "count_and_make_run (by_property P) (a0 # a1 # rest) = (a0 # a1 # ?tn, ?dn)"
        using False by (simp add: count_and_make_run_def by_property_def
            extend_run_ascending dropWhile_eq_drop [symmetric] takeWhile_eq_take [symmetric])
      have f1: "filter P rest = filter P ?dn"
        using filter_takeWhile_dropWhile [of P rest "\<lambda>x. \<not> P x"]
          filter_takeWhile_none [of "\<lambda>x. \<not> P x" rest]
        by simp
      have f2: "filter (\<lambda>x. \<not> P x) rest = ?tn @ filter (\<lambda>x. \<not> P x) ?dn"
        using filter_takeWhile_dropWhile [of "\<lambda>x. \<not> P x" rest "\<lambda>x. \<not> P x"]
        by (simp add: filter_takeWhile_same)
      show ?thesis
        using False
        by (simp add: v8_sort_def Cons c2 run binary_insertion_sort_by_property f1 f2
            del: dropWhile_eq_Nil_conv)
    qed
  qed
qed
lemma comparators_by_property:
  "compare_includes = by_property (\<lambda>n. includes' n first_language)"
  "compare_equals = by_property (\<lambda>n. n = first_language)"
  by (simp_all add: fun_eq_iff compare_includes_def compare_equals_def by_property_def)

lemma first_language_includes: "includes' first_language first_language"
  by (simp add: first_language_def js_def)

text \<open>
  Claim C5. After the two sorts, the names equal to "English" come first, then the other
  names that contain "English" (in the reverse of their original order), then the names
  that do not contain it, in their original order. For the names Spanish, English,
  English (auto-generated) the result is English, English (auto-generated), Spanish.
\<close>

theorem two_pass_sort_english_first:
  "sortLanguageNames v8_sort names =
     filter (\<lambda>n. n = first_language) names @
     rev (filter (\<lambda>n. includes' n first_language \<and> n \<noteq> first_language) names) @
     filter (\<lambda>n. \<not> includes' n first_language) names
   \<and> sortLanguageNames v8_sort
        [js ''Spanish'', js ''English'', js ''English (auto-generated)''] =
      [js ''English'', js ''English (auto-generated)'', js ''Spanish'']"
proof
  let ?P = "\<lambda>n. includes' n first_language" and ?Q = "\<lambda>n. n = first_language"
  have QP: "?Q n \<Longrightarrow> ?P n" for n by (simp add: first_language_includes)
  show general: "sortLanguageNames v8_sort names =
     filter ?Q names @ rev (filter (\<lambda>n. ?P n \<and> n \<noteq> first_language) names) @
     filter (\<lambda>n. \<not> ?P n) names" for names
  proof -
    have a: "filter ?Q (filter ?P names) = filter ?Q names"
      using QP by (auto simp: filter_filter intro: filter_cong)
    have b: "filter ?Q (filter (\<lambda>n. \<not> ?P n) names) = []"
      using QP by (auto simp: filter_empty_conv)
    have c: "filter (\<lambda>n. \<not> ?Q n) (filter ?P names) = filter (\<lambda>n. ?P n \<and> \<not> ?Q n) names"
      by (auto simp: filter_filter intro: filter_cong)
    have d: "filter (\<lambda>n. \<not> ?Q n) (filter (\<lambda>n. \<not> ?P n) names) = filter (\<lambda>n. \<not> ?P n) names"
      using QP by (auto simp: filter_filter intro: filter_cong)
    show ?thesis
      by (simp add: sortLanguageNames_def comparators_by_property v8_sort_by_property
          rev_filter [symmetric] a b c d del: filter_filter)
  qed
  show "sortLanguageNames v8_sort
        [js ''Spanish'', js ''English'', js ''English (auto-generated)''] =
      [js ''English'', js ''English (auto-generated)'', js ''Spanish'']"
    unfolding general by (simp add: first_language_def js_def)
qed

end
